theory Spec2Isabelle
  imports Main "HOL-Library.Word"
begin

section \<open>Machine types of \<^verbatim>\<open>viridentity.c\<close>\<close>

text \<open>
  \<^verbatim>\<open>uid_t\<close> and \<^verbatim>\<open>gid_t\<close> are unsigned 32-bit integers, \<^verbatim>\<open>pid_t\<close> is a signed
  32-bit integer (read with \<open>sint\<close>), \<^verbatim>\<open>unsigned long long\<close> and \<^verbatim>\<open>long long\<close> are 64 bits
  wide. A C cast to a wider unsigned type is \<open>ucast\<close>, the widening of a signed value is
  \<open>scast\<close> (sign extension), and a cast to a narrower type keeps the low bits (\<open>ucast\<close>).
\<close>

type_synonym uid_t = "32 word"
type_synonym gid_t = "32 word"
type_synonym pid_t = "32 word"
type_synonym ullong = "64 word"
type_synonym llong = "64 word"

section \<open>Typed parameters\<close>

text \<open>
  Modelled from the spec: the declaration of \<^verbatim>\<open>virTypedParameter\<close> (a field name, a type
  tag and a union holding the value) is in the public header, which is not under src/.
  The spec calls the attributes "typed key/value pairs". The tagged union is a datatype:
  the constructor is the type tag. \<^verbatim>\<open>viridentity.c\<close> names three tags,
  \<^verbatim>\<open>VIR_TYPED_PARAM_LLONG\<close>, \<^verbatim>\<open>VIR_TYPED_PARAM_ULLONG\<close> and \<^verbatim>\<open>VIR_TYPED_PARAM_STRING\<close>;
  the other constructors stand for the tags it never names.
\<close>

datatype virTypedParameterType =
    VIR_TYPED_PARAM_INT
  | VIR_TYPED_PARAM_UINT
  | VIR_TYPED_PARAM_LLONG
  | VIR_TYPED_PARAM_ULLONG
  | VIR_TYPED_PARAM_DOUBLE
  | VIR_TYPED_PARAM_BOOLEAN
  | VIR_TYPED_PARAM_STRING

datatype virTypedParameterValue =
    Int_val "32 word"
  | UInt_val "32 word"
  | LLong_val llong
  | ULLong_val ullong
  | Double_val "64 word"
  | Boolean_val bool
  | String_val string

fun type_of_val :: "virTypedParameterValue \<Rightarrow> virTypedParameterType" where
  "type_of_val (Int_val _) = VIR_TYPED_PARAM_INT"
| "type_of_val (UInt_val _) = VIR_TYPED_PARAM_UINT"
| "type_of_val (LLong_val _) = VIR_TYPED_PARAM_LLONG"
| "type_of_val (ULLong_val _) = VIR_TYPED_PARAM_ULLONG"
| "type_of_val (Double_val _) = VIR_TYPED_PARAM_DOUBLE"
| "type_of_val (Boolean_val _) = VIR_TYPED_PARAM_BOOLEAN"
| "type_of_val (String_val _) = VIR_TYPED_PARAM_STRING"

text \<open>A typed parameter: the field name and the tagged value.\<close>

type_synonym virTypedParameter = "string \<times> virTypedParameterValue"

text \<open>
  Modelled from the spec: the values of the \<^verbatim>\<open>VIR_CONNECT_IDENTITY_*\<close> macros are
  declared in the public header, which is not under src/. The spec's enumeration of the
  keys, "user-name, unix-uid, group-name, unix-gid, process-id, process-start-time,
  sasl-user-name, x509-subject, mac-label", gives the nine names.
\<close>

definition VIR_CONNECT_IDENTITY_USER_NAME :: string where
  "VIR_CONNECT_IDENTITY_USER_NAME = ''user-name''"

definition VIR_CONNECT_IDENTITY_UNIX_USER_ID :: string where
  "VIR_CONNECT_IDENTITY_UNIX_USER_ID = ''unix-uid''"

definition VIR_CONNECT_IDENTITY_GROUP_NAME :: string where
  "VIR_CONNECT_IDENTITY_GROUP_NAME = ''group-name''"

definition VIR_CONNECT_IDENTITY_UNIX_GROUP_ID :: string where
  "VIR_CONNECT_IDENTITY_UNIX_GROUP_ID = ''unix-gid''"

definition VIR_CONNECT_IDENTITY_PROCESS_ID :: string where
  "VIR_CONNECT_IDENTITY_PROCESS_ID = ''process-id''"

definition VIR_CONNECT_IDENTITY_PROCESS_TIME :: string where
  "VIR_CONNECT_IDENTITY_PROCESS_TIME = ''process-start-time''"

definition VIR_CONNECT_IDENTITY_SASL_USER_NAME :: string where
  "VIR_CONNECT_IDENTITY_SASL_USER_NAME = ''sasl-user-name''"

definition VIR_CONNECT_IDENTITY_X509_DISTINGUISHED_NAME :: string where
  "VIR_CONNECT_IDENTITY_X509_DISTINGUISHED_NAME = ''x509-subject''"

definition VIR_CONNECT_IDENTITY_SELINUX_CONTEXT :: string where
  "VIR_CONNECT_IDENTITY_SELINUX_CONTEXT = ''mac-label''"

lemmas identity_keys =
  VIR_CONNECT_IDENTITY_USER_NAME_def VIR_CONNECT_IDENTITY_UNIX_USER_ID_def
  VIR_CONNECT_IDENTITY_GROUP_NAME_def VIR_CONNECT_IDENTITY_UNIX_GROUP_ID_def
  VIR_CONNECT_IDENTITY_PROCESS_ID_def VIR_CONNECT_IDENTITY_PROCESS_TIME_def
  VIR_CONNECT_IDENTITY_SASL_USER_NAME_def VIR_CONNECT_IDENTITY_X509_DISTINGUISHED_NAME_def
  VIR_CONNECT_IDENTITY_SELINUX_CONTEXT_def

text \<open>
  The errors. \<^verbatim>\<open>VIR_ERR_INTERNAL_ERROR\<close> and \<^verbatim>\<open>VIR_ERR_OPERATION_DENIED\<close> are the codes
  \<^verbatim>\<open>viridentity.c\<close> reports itself; the second, reported with "Identity attribute is
  already set", is the spec's \<^verbatim>\<open>AlreadySet\<close>. \<open>TypeMismatch\<close> and \<open>UnknownAttribute\<close> are
  the spec's names of the two errors of the bulk validation, whose code is not under
  src/.
\<close>

datatype virErrorNumber =
    VIR_ERR_INTERNAL_ERROR
  | VIR_ERR_OPERATION_DENIED
  | TypeMismatch
  | UnknownAttribute

text \<open>
  The result of a function that returns 0 or -1 and mutates the object it is given:
  \<open>Inr ()\<close> is the return value 0, \<open>Inl e\<close> is -1 with the error \<open>e\<close> reported; the
  second component is the object after the call.
\<close>

type_synonym 'a outcome = "(virErrorNumber + unit) \<times> 'a"

subsection \<open>The helpers of \<^verbatim>\<open>virtypedparam.c\<close>\<close>

text \<open>
  Modelled from the spec: \<^verbatim>\<open>virTypedParamsGet\<close> is not under src/. The attributes are an
  "ordered set of typed key/value pairs"; the lookup returns the first parameter whose
  field is the name, or NULL (\<open>None\<close>).
\<close>

definition virTypedParamsGet ::
  "virTypedParameter list \<Rightarrow> string \<Rightarrow> virTypedParameter option" where
  "virTypedParamsGet params name = find (\<lambda>p. fst p = name) params"

text \<open>
  Modelled from the spec: \<^verbatim>\<open>virTypedParamsGetString\<close>, \<^verbatim>\<open>virTypedParamsGetULLong\<close> and
  \<^verbatim>\<open>virTypedParamsGetLLong\<close> are not under src/. Each getter built on them returns "a
  tri-state (absent / present-with-value / error)", which the comments of
  \<^verbatim>\<open>viridentity.c\<close> give as "0 if not present, 1 if present, -1 on error": 0 when no
  parameter has the name, 1 with the value written through the output pointer when the
  parameter has the requested type, -1 when it has another type. The third argument is
  what the output pointer held before the call; it is returned as it was unless the
  result is 1.
\<close>

definition virTypedParamsGetString ::
  "virTypedParameter list \<Rightarrow> string \<Rightarrow> string option \<Rightarrow> int \<times> string option" where
  "virTypedParamsGetString params name out =
     (case virTypedParamsGet params name of
        None \<Rightarrow> (0, out)
      | Some p \<Rightarrow>
          (case snd p of
             String_val s \<Rightarrow> (1, Some s)
           | _ \<Rightarrow> (-1, out)))"

definition virTypedParamsGetULLong ::
  "virTypedParameter list \<Rightarrow> string \<Rightarrow> ullong \<Rightarrow> int \<times> ullong" where
  "virTypedParamsGetULLong params name out =
     (case virTypedParamsGet params name of
        None \<Rightarrow> (0, out)
      | Some p \<Rightarrow>
          (case snd p of
             ULLong_val v \<Rightarrow> (1, v)
           | _ \<Rightarrow> (-1, out)))"

definition virTypedParamsGetLLong ::
  "virTypedParameter list \<Rightarrow> string \<Rightarrow> llong \<Rightarrow> int \<times> llong" where
  "virTypedParamsGetLLong params name out =
     (case virTypedParamsGet params name of
        None \<Rightarrow> (0, out)
      | Some p \<Rightarrow>
          (case snd p of
             LLong_val v \<Rightarrow> (1, v)
           | _ \<Rightarrow> (-1, out)))"

text \<open>
  Modelled from the spec: \<^verbatim>\<open>virTypedParamsAddString\<close>, \<^verbatim>\<open>virTypedParamsAddULLong\<close> and
  \<^verbatim>\<open>virTypedParamsAddLLong\<close> are not under src/. Attributes are "added one at a time"
  to an ordered collection: the new parameter goes after the \<^verbatim>\<open>nparams\<close> existing ones.
  Memory allocation is taken to succeed, so the helpers return 0.
\<close>

definition virTypedParamsAddString ::
  "virTypedParameter list \<Rightarrow> string \<Rightarrow> string \<Rightarrow> virTypedParameter list outcome" where
  "virTypedParamsAddString params name v = (Inr (), params @ [(name, String_val v)])"

definition virTypedParamsAddULLong ::
  "virTypedParameter list \<Rightarrow> string \<Rightarrow> ullong \<Rightarrow> virTypedParameter list outcome" where
  "virTypedParamsAddULLong params name v = (Inr (), params @ [(name, ULLong_val v)])"

definition virTypedParamsAddLLong ::
  "virTypedParameter list \<Rightarrow> string \<Rightarrow> llong \<Rightarrow> virTypedParameter list outcome" where
  "virTypedParamsAddLLong params name v = (Inr (), params @ [(name, LLong_val v)])"

section \<open>The identity object\<close>

text \<open>
  \<^verbatim>\<open>struct _virIdentity\<close>: the array \<^verbatim>\<open>params\<close> with its length \<^verbatim>\<open>nparams\<close> is the list
  (a NULL array is the empty list); \<^verbatim>\<open>maxparams\<close> is the capacity of the allocation,
  which only the helpers that grow the array read. The reference count of the parent
  \<^verbatim>\<open>virObject\<close> is part of the object store below.
\<close>

record virIdentity =
  params :: "virTypedParameter list"

text \<open>\<^verbatim>\<open>virIdentityNew\<close> gives an object with no parameters.\<close>

definition empty_identity :: virIdentity where
  "empty_identity = \<lparr>params = []\<rparr>"

subsection \<open>Getters\<close>

text \<open>
  Each getter returns the return value and what the output parameter holds after the
  call. A \<^verbatim>\<open>const char *\<close> output is a \<open>string option\<close>, NULL being \<open>None\<close>. The
  local \<^verbatim>\<open>val\<close> of the numeric getters is not initialised in C and is read only after
  the helper has returned 1 and written it; 0 stands for what it holds before.
\<close>

definition virIdentityGetUserName :: "virIdentity \<Rightarrow> int \<times> string option" where
  "virIdentityGetUserName ident =
     (let username = None
      in virTypedParamsGetString (params ident) VIR_CONNECT_IDENTITY_USER_NAME username)"

definition virIdentityGetUNIXUserID :: "virIdentity \<Rightarrow> int \<times> uid_t" where
  "virIdentityGetUNIXUserID ident =
     (let uid = (-1 :: uid_t);
          (rc, val) = virTypedParamsGetULLong (params ident)
                        VIR_CONNECT_IDENTITY_UNIX_USER_ID 0
      in if rc \<le> 0 then (rc, uid) else (1, ucast val))"

definition virIdentityGetGroupName :: "virIdentity \<Rightarrow> int \<times> string option" where
  "virIdentityGetGroupName ident =
     (let groupname = None
      in virTypedParamsGetString (params ident) VIR_CONNECT_IDENTITY_GROUP_NAME groupname)"

definition virIdentityGetUNIXGroupID :: "virIdentity \<Rightarrow> int \<times> gid_t" where
  "virIdentityGetUNIXGroupID ident =
     (let gid = (-1 :: gid_t);
          (rc, val) = virTypedParamsGetULLong (params ident)
                        VIR_CONNECT_IDENTITY_UNIX_GROUP_ID 0
      in if rc \<le> 0 then (rc, gid) else (1, ucast val))"

definition virIdentityGetProcessID :: "virIdentity \<Rightarrow> int \<times> pid_t" where
  "virIdentityGetProcessID ident =
     (let pid = (0 :: pid_t);
          (rc, val) = virTypedParamsGetLLong (params ident)
                        VIR_CONNECT_IDENTITY_PROCESS_ID 0
      in if rc \<le> 0 then (rc, pid) else (1, ucast val))"

definition virIdentityGetProcessTime :: "virIdentity \<Rightarrow> int \<times> ullong" where
  "virIdentityGetProcessTime ident =
     (let timestamp = (0 :: ullong)
      in virTypedParamsGetULLong (params ident) VIR_CONNECT_IDENTITY_PROCESS_TIME timestamp)"

definition virIdentityGetSASLUserName :: "virIdentity \<Rightarrow> int \<times> string option" where
  "virIdentityGetSASLUserName ident =
     (let username = None
      in virTypedParamsGetString (params ident) VIR_CONNECT_IDENTITY_SASL_USER_NAME username)"

definition virIdentityGetX509DName :: "virIdentity \<Rightarrow> int \<times> string option" where
  "virIdentityGetX509DName ident =
     (let dname = None
      in virTypedParamsGetString (params ident)
           VIR_CONNECT_IDENTITY_X509_DISTINGUISHED_NAME dname)"

definition virIdentityGetSELinuxContext :: "virIdentity \<Rightarrow> int \<times> string option" where
  "virIdentityGetSELinuxContext ident =
     (let context = None
      in virTypedParamsGetString (params ident) VIR_CONNECT_IDENTITY_SELINUX_CONTEXT context)"

subsection \<open>Setters\<close>

text \<open>
  The helper runs on \<^verbatim>\<open>&ident->params\<close>: its return value is the setter's, and the list
  it leaves is the object's.
\<close>

definition add_to :: "virIdentity \<Rightarrow> virTypedParameter list outcome \<Rightarrow> virIdentity outcome" where
  "add_to ident r = (fst r, ident\<lparr>params := snd r\<rparr>)"

definition virIdentitySetUserName :: "virIdentity \<Rightarrow> string \<Rightarrow> virIdentity outcome" where
  "virIdentitySetUserName ident username =
     (if virTypedParamsGet (params ident) VIR_CONNECT_IDENTITY_USER_NAME \<noteq> None
      then (Inl VIR_ERR_OPERATION_DENIED, ident)
      else add_to ident (virTypedParamsAddString (params ident)
                           VIR_CONNECT_IDENTITY_USER_NAME username))"

definition virIdentitySetUNIXUserID :: "virIdentity \<Rightarrow> uid_t \<Rightarrow> virIdentity outcome" where
  "virIdentitySetUNIXUserID ident uid =
     (if virTypedParamsGet (params ident) VIR_CONNECT_IDENTITY_UNIX_USER_ID \<noteq> None
      then (Inl VIR_ERR_OPERATION_DENIED, ident)
      else add_to ident (virTypedParamsAddULLong (params ident)
                           VIR_CONNECT_IDENTITY_UNIX_USER_ID (ucast uid)))"

definition virIdentitySetGroupName :: "virIdentity \<Rightarrow> string \<Rightarrow> virIdentity outcome" where
  "virIdentitySetGroupName ident groupname =
     (if virTypedParamsGet (params ident) VIR_CONNECT_IDENTITY_GROUP_NAME \<noteq> None
      then (Inl VIR_ERR_OPERATION_DENIED, ident)
      else add_to ident (virTypedParamsAddString (params ident)
                           VIR_CONNECT_IDENTITY_GROUP_NAME groupname))"

definition virIdentitySetUNIXGroupID :: "virIdentity \<Rightarrow> gid_t \<Rightarrow> virIdentity outcome" where
  "virIdentitySetUNIXGroupID ident gid =
     (if virTypedParamsGet (params ident) VIR_CONNECT_IDENTITY_UNIX_GROUP_ID \<noteq> None
      then (Inl VIR_ERR_OPERATION_DENIED, ident)
      else add_to ident (virTypedParamsAddULLong (params ident)
                           VIR_CONNECT_IDENTITY_UNIX_GROUP_ID (ucast gid)))"

definition virIdentitySetProcessID :: "virIdentity \<Rightarrow> pid_t \<Rightarrow> virIdentity outcome" where
  "virIdentitySetProcessID ident pid =
     (if virTypedParamsGet (params ident) VIR_CONNECT_IDENTITY_PROCESS_ID \<noteq> None
      then (Inl VIR_ERR_OPERATION_DENIED, ident)
      else add_to ident (virTypedParamsAddLLong (params ident)
                           VIR_CONNECT_IDENTITY_PROCESS_ID (scast pid)))"

definition virIdentitySetProcessTime :: "virIdentity \<Rightarrow> ullong \<Rightarrow> virIdentity outcome" where
  "virIdentitySetProcessTime ident timestamp =
     (if virTypedParamsGet (params ident) VIR_CONNECT_IDENTITY_PROCESS_TIME \<noteq> None
      then (Inl VIR_ERR_OPERATION_DENIED, ident)
      else add_to ident (virTypedParamsAddULLong (params ident)
                           VIR_CONNECT_IDENTITY_PROCESS_TIME timestamp))"

definition virIdentitySetSASLUserName :: "virIdentity \<Rightarrow> string \<Rightarrow> virIdentity outcome" where
  "virIdentitySetSASLUserName ident username =
     (if virTypedParamsGet (params ident) VIR_CONNECT_IDENTITY_SASL_USER_NAME \<noteq> None
      then (Inl VIR_ERR_OPERATION_DENIED, ident)
      else add_to ident (virTypedParamsAddString (params ident)
                           VIR_CONNECT_IDENTITY_SASL_USER_NAME username))"

definition virIdentitySetX509DName :: "virIdentity \<Rightarrow> string \<Rightarrow> virIdentity outcome" where
  "virIdentitySetX509DName ident dname =
     (if virTypedParamsGet (params ident) VIR_CONNECT_IDENTITY_X509_DISTINGUISHED_NAME \<noteq> None
      then (Inl VIR_ERR_OPERATION_DENIED, ident)
      else add_to ident (virTypedParamsAddString (params ident)
                           VIR_CONNECT_IDENTITY_X509_DISTINGUISHED_NAME dname))"

definition virIdentitySetSELinuxContext :: "virIdentity \<Rightarrow> string \<Rightarrow> virIdentity outcome" where
  "virIdentitySetSELinuxContext ident context =
     (if virTypedParamsGet (params ident) VIR_CONNECT_IDENTITY_SELINUX_CONTEXT \<noteq> None
      then (Inl VIR_ERR_OPERATION_DENIED, ident)
      else add_to ident (virTypedParamsAddString (params ident)
                           VIR_CONNECT_IDENTITY_SELINUX_CONTEXT context))"

subsection \<open>Bulk access\<close>

text \<open>
  Modelled from the spec: \<^verbatim>\<open>virTypedParamsValidate\<close> is not under src/. It "validates
  the bag against the fixed type schema (wrong type for a known key \<Rightarrow> TypeMismatch;
  unknown key \<Rightarrow> rejected)". The schema is the list of names and types the caller passes.
  The first parameter of the bag that the schema does not admit decides the error:
  \<open>UnknownAttribute\<close> when the schema has no such name, \<open>TypeMismatch\<close> when it has the
  name with another type.
\<close>

definition virTypedParamsValidate ::
  "virTypedParameter list \<Rightarrow> (string \<times> virTypedParameterType) list \<Rightarrow> virErrorNumber + unit"
  where
  "virTypedParamsValidate ps keys =
     (case find (\<lambda>p. map_of keys (fst p) \<noteq> Some (type_of_val (snd p))) ps of
        None \<Rightarrow> Inr ()
      | Some p \<Rightarrow>
          (case map_of keys (fst p) of
             None \<Rightarrow> Inl UnknownAttribute
           | Some t \<Rightarrow> Inl TypeMismatch))"

text \<open>
  Modelled from the spec: \<^verbatim>\<open>virTypedParamsCopy\<close> is not under src/. The spec calls the
  result a "snapshot copy": the same parameters in the same order. Memory allocation is
  taken to succeed, so the result is never \<open>Inl\<close>.
\<close>

definition virTypedParamsCopy ::
  "virTypedParameter list \<Rightarrow> virErrorNumber + virTypedParameter list" where
  "virTypedParamsCopy src = Inr src"

text \<open>The names and types \<^verbatim>\<open>virIdentitySetParameters\<close> passes to the validation.\<close>

definition identity_schema :: "(string \<times> virTypedParameterType) list" where
  "identity_schema =
     [(VIR_CONNECT_IDENTITY_USER_NAME, VIR_TYPED_PARAM_STRING),
      (VIR_CONNECT_IDENTITY_UNIX_USER_ID, VIR_TYPED_PARAM_ULLONG),
      (VIR_CONNECT_IDENTITY_GROUP_NAME, VIR_TYPED_PARAM_STRING),
      (VIR_CONNECT_IDENTITY_UNIX_GROUP_ID, VIR_TYPED_PARAM_ULLONG),
      (VIR_CONNECT_IDENTITY_PROCESS_ID, VIR_TYPED_PARAM_LLONG),
      (VIR_CONNECT_IDENTITY_PROCESS_TIME, VIR_TYPED_PARAM_ULLONG),
      (VIR_CONNECT_IDENTITY_SASL_USER_NAME, VIR_TYPED_PARAM_STRING),
      (VIR_CONNECT_IDENTITY_X509_DISTINGUISHED_NAME, VIR_TYPED_PARAM_STRING),
      (VIR_CONNECT_IDENTITY_SELINUX_CONTEXT, VIR_TYPED_PARAM_STRING)]"

text \<open>
  \<^verbatim>\<open>virIdentitySetParameters\<close>: a failed validation returns before the object is
  touched; after it the old parameters are freed and the copy of the bag is installed.
  A failing copy would leave the object with no parameters.
\<close>

definition virIdentitySetParameters ::
  "virIdentity \<Rightarrow> virTypedParameter list \<Rightarrow> virIdentity outcome" where
  "virIdentitySetParameters ident ps =
     (case virTypedParamsValidate ps identity_schema of
        Inl e \<Rightarrow> (Inl e, ident)
      | Inr _ \<Rightarrow>
          (let freed = ident\<lparr>params := []\<rparr>
           in case virTypedParamsCopy ps of
                Inl e \<Rightarrow> (Inl e, freed)
              | Inr copy \<Rightarrow> (Inr (), freed\<lparr>params := copy\<rparr>)))"

text \<open>
  \<^verbatim>\<open>virIdentityGetParameters\<close>: the return value and what \<^verbatim>\<open>*params\<close> (with its length
  \<^verbatim>\<open>*nparams\<close>) holds after the call.
\<close>

definition virIdentityGetParameters ::
  "virIdentity \<Rightarrow> (virErrorNumber + unit) \<times> virTypedParameter list" where
  "virIdentityGetParameters ident =
     (case virTypedParamsCopy (params ident) of
        Inl e \<Rightarrow> (Inl e, [])
      | Inr copy \<Rightarrow> (Inr (), copy))"

text \<open>
  The words of the spec for the two ways a bag is refused: a parameter with a known key
  and the wrong type, and a parameter with an unknown key.
\<close>

definition known_key_wrong_type :: "virTypedParameter \<Rightarrow> bool" where
  "known_key_wrong_type p =
     (case map_of identity_schema (fst p) of
        None \<Rightarrow> False
      | Some t \<Rightarrow> type_of_val (snd p) \<noteq> t)"

definition unknown_key :: "virTypedParameter \<Rightarrow> bool" where
  "unknown_key p = (map_of identity_schema (fst p) = None)"

section \<open>The identity of the process\<close>

text \<open>
  What \<^verbatim>\<open>virIdentityGetSystem\<close> asks of its surroundings: whether the one-time
  initialisation and the allocation of the object succeed, the ids of the process, the
  start time lookup (\<open>None\<close> when \<^verbatim>\<open>virProcessGetStartTime\<close> returns a negative value),
  the name lookups (\<open>None\<close> for NULL), whether the file is compiled \<^verbatim>\<open>WITH_SELINUX\<close>, and
  what \<^verbatim>\<open>is_selinux_enabled\<close> and \<^verbatim>\<open>getcon\<close> return (\<open>None\<close> when \<^verbatim>\<open>getcon\<close> fails).
\<close>

record process_env =
  virIdentityInitialize :: bool
  virObjectNew :: bool
  getpid :: pid_t
  getuid :: uid_t
  geteuid :: uid_t
  getgid :: gid_t
  getegid :: gid_t
  virProcessGetStartTime :: "pid_t \<Rightarrow> ullong option"
  virGetUserName :: "uid_t \<Rightarrow> string option"
  virGetGroupName :: "gid_t \<Rightarrow> string option"
  WITH_SELINUX :: bool
  is_selinux_enabled :: int
  getcon :: "string option"

definition virIdentityNew :: "process_env \<Rightarrow> virIdentity option" where
  "virIdentityNew env =
     (if \<not> virIdentityInitialize env then None
      else if \<not> virObjectNew env then None
      else Some empty_identity)"

text \<open>
  \<^verbatim>\<open>virIdentityGetSystem\<close>. \<open>None\<close> is the NULL of the \<^verbatim>\<open>error\<close> label (the object is
  released there); \<open>Some\<close> is the object returned, at the end or at one of the three
  early \<^verbatim>\<open>return ret\<close>. The part under \<^verbatim>\<open>#if WITH_SELINUX\<close> is a function of its own
  here.
\<close>

definition system_selinux :: "process_env \<Rightarrow> virIdentity \<Rightarrow> virIdentity option" where
  "system_selinux env ret =
     (if WITH_SELINUX env \<and> is_selinux_enabled env > 0 then
        (case getcon env of
           None \<Rightarrow> Some ret
         | Some con \<Rightarrow>
             (case virIdentitySetSELinuxContext ret con of
                (Inl e, _) \<Rightarrow> None
              | (Inr _, ret') \<Rightarrow> Some ret'))
      else Some ret)"

definition virIdentityGetSystem :: "process_env \<Rightarrow> virIdentity option" where
  "virIdentityGetSystem env =
     (case virIdentityNew env of
        None \<Rightarrow> None
      | Some ret0 \<Rightarrow>
     (case virIdentitySetProcessID ret0 (getpid env) of
        (Inl e, _) \<Rightarrow> None
      | (Inr _, ret1) \<Rightarrow>
     (case virProcessGetStartTime env (getpid env) of
        None \<Rightarrow> None
      | Some startTime \<Rightarrow>
     (case (if startTime \<noteq> 0 then virIdentitySetProcessTime ret1 startTime
            else (Inr (), ret1)) of
        (Inl e, _) \<Rightarrow> None
      | (Inr _, ret2) \<Rightarrow>
     (case virGetUserName env (geteuid env) of
        None \<Rightarrow> Some ret2
      | Some username \<Rightarrow>
     (case virIdentitySetUserName ret2 username of
        (Inl e, _) \<Rightarrow> None
      | (Inr _, ret3) \<Rightarrow>
     (case virIdentitySetUNIXUserID ret3 (getuid env) of
        (Inl e, _) \<Rightarrow> None
      | (Inr _, ret4) \<Rightarrow>
     (case virGetGroupName env (getegid env) of
        None \<Rightarrow> Some ret4
      | Some groupname \<Rightarrow>
     (case virIdentitySetGroupName ret4 groupname of
        (Inl e, _) \<Rightarrow> None
      | (Inr _, ret5) \<Rightarrow>
     (case virIdentitySetUNIXGroupID ret5 (getgid env) of
        (Inl e, _) \<Rightarrow> None
      | (Inr _, ret6) \<Rightarrow> system_selinux env ret6))))))))))"

section \<open>The identity of the thread\<close>

text \<open>
  Identity objects live in a store, each with the reference count of its parent
  \<^verbatim>\<open>virObject\<close>; a \<^verbatim>\<open>virIdentityPtr\<close> is an address or NULL (\<open>None\<close>). The thread-local
  \<^verbatim>\<open>virIdentityCurrent\<close> has one slot for each thread.
\<close>

type_synonym addr = nat
type_synonym thread = nat

record identity_object =
  refs :: nat
  identity :: virIdentity

record store =
  heap :: "addr \<Rightarrow> identity_object option"
  virIdentityCurrent :: "thread \<Rightarrow> addr option"

text \<open>
  Modelled from the spec: \<^verbatim>\<open>virObjectRef\<close> and \<^verbatim>\<open>virObjectUnref\<close> are not under src/.
  An identity is "shared by reference count" and "destroyed when the last reference is
  dropped". Taking a reference adds one to the count and returns the pointer; releasing
  one subtracts one, and removes the object from the store when none is left. Both do
  nothing on NULL or on an address that holds no object, and \<^verbatim>\<open>virObjectRef\<close> returns
  NULL then.
\<close>

definition virObjectRef :: "store \<Rightarrow> addr option \<Rightarrow> addr option \<times> store" where
  "virObjectRef s p =
     (case p of
        None \<Rightarrow> (None, s)
      | Some a \<Rightarrow>
          (case heap s a of
             None \<Rightarrow> (None, s)
           | Some ob \<Rightarrow> (Some a, s\<lparr>heap := (heap s)(a \<mapsto> ob\<lparr>refs := refs ob + 1\<rparr>)\<rparr>)))"

definition virObjectUnref :: "store \<Rightarrow> addr option \<Rightarrow> store" where
  "virObjectUnref s p =
     (case p of
        None \<Rightarrow> s
      | Some a \<Rightarrow>
          (case heap s a of
             None \<Rightarrow> s
           | Some ob \<Rightarrow>
               (if refs ob \<le> 1 then s\<lparr>heap := (heap s)(a := None)\<rparr>
                else s\<lparr>heap := (heap s)(a \<mapsto> ob\<lparr>refs := refs ob - 1\<rparr>)\<rparr>)))"

text \<open>
  Modelled from the spec: \<^verbatim>\<open>virThreadLocalGet\<close> and \<^verbatim>\<open>virThreadLocalSet\<close> are not under
  src/. "The thread-local binding is per-thread by construction": the calling thread
  reads and writes its own slot. The first argument of \<^verbatim>\<open>virThreadLocalSet\<close> says
  whether the store into the slot succeeds; when it does not, the slot keeps what it
  held and the result is negative.
\<close>

definition virThreadLocalGet :: "store \<Rightarrow> thread \<Rightarrow> addr option" where
  "virThreadLocalGet s t = virIdentityCurrent s t"

definition virThreadLocalSet :: "bool \<Rightarrow> store \<Rightarrow> thread \<Rightarrow> addr option \<Rightarrow> int \<times> store" where
  "virThreadLocalSet ok s t p =
     (if ok then (0, s\<lparr>virIdentityCurrent := (virIdentityCurrent s)(t := p)\<rparr>) else (-1, s))"

text \<open>
  \<^verbatim>\<open>virIdentityGetCurrent\<close> and \<^verbatim>\<open>virIdentitySetCurrent\<close>, called by thread \<open>t\<close>. The
  argument \<open>init\<close> says whether \<^verbatim>\<open>virIdentityInitialize\<close> succeeds, \<open>set_ok\<close> whether the
  store into the thread-local does.
\<close>

definition virIdentityGetCurrent :: "bool \<Rightarrow> thread \<Rightarrow> store \<Rightarrow> addr option \<times> store" where
  "virIdentityGetCurrent init t s =
     (if \<not> init then (None, s)
      else (let ident = virThreadLocalGet s t in virObjectRef s ident))"

definition virIdentitySetCurrent ::
  "bool \<Rightarrow> bool \<Rightarrow> thread \<Rightarrow> addr option \<Rightarrow> store \<Rightarrow> store outcome" where
  "virIdentitySetCurrent init set_ok t ident s =
     (if \<not> init then (Inl VIR_ERR_INTERNAL_ERROR, s)
      else
        (let old = virThreadLocalGet s t;
             (ref, s1) = virObjectRef s ident;
             (rc, s2) = virThreadLocalSet set_ok s1 t ref
         in if rc < 0 then (Inl VIR_ERR_INTERNAL_ERROR, virObjectUnref s2 ident)
            else (Inr (), virObjectUnref s2 old)))"

section \<open>The job object of \<^verbatim>\<open>lxc_domain.h\<close>\<close>

text \<open>
  The header declares the kinds of job and the job object of a domain: the condition
  variable, the running job and the thread that set it. \<^verbatim>\<open>virLXCDomainObjBeginJob\<close> and
  \<^verbatim>\<open>virLXCDomainObjEndJob\<close> are declared there and defined elsewhere.
\<close>

datatype virLXCDomainJob =
    LXC_JOB_NONE
  | LXC_JOB_QUERY
  | LXC_JOB_DESTROY
  | LXC_JOB_MODIFY

record virLXCDomainJobObj =
  active :: virLXCDomainJob
  owner :: int

section \<open>Example inputs\<close>

text \<open>
  An identity whose parameters have the names of known keys and the wrong types, as no
  setter and no accepted bag leaves them.
\<close>

definition mistyped_identity :: virIdentity where
  "mistyped_identity =
     \<lparr>params = [(VIR_CONNECT_IDENTITY_USER_NAME, ULLong_val 5),
                (VIR_CONNECT_IDENTITY_UNIX_USER_ID, String_val ''root''),
                (VIR_CONNECT_IDENTITY_PROCESS_ID, ULLong_val 1),
                (VIR_CONNECT_IDENTITY_PROCESS_TIME, LLong_val 9)]\<rparr>"

text \<open>An identity with two attributes set, and three bags.\<close>

definition stamped_identity :: virIdentity where
  "stamped_identity =
     \<lparr>params = [(VIR_CONNECT_IDENTITY_USER_NAME, String_val ''root''),
                (VIR_CONNECT_IDENTITY_UNIX_USER_ID, ULLong_val 0)]\<rparr>"

definition accepted_bag :: "virTypedParameter list" where
  "accepted_bag =
     [(VIR_CONNECT_IDENTITY_USER_NAME, String_val ''alice''),
      (VIR_CONNECT_IDENTITY_PROCESS_ID, LLong_val 4242),
      (VIR_CONNECT_IDENTITY_SASL_USER_NAME, String_val ''alice@EXAMPLE'')]"

definition mistyped_bag :: "virTypedParameter list" where
  "mistyped_bag =
     [(VIR_CONNECT_IDENTITY_USER_NAME, String_val ''alice''),
      (VIR_CONNECT_IDENTITY_UNIX_USER_ID, String_val ''1000'')]"

definition unknown_bag :: "virTypedParameter list" where
  "unknown_bag =
     [(VIR_CONNECT_IDENTITY_USER_NAME, String_val ''alice''),
      (''favourite-colour'', String_val ''green'')]"

text \<open>
  A process whose real and effective ids differ (real uid and gid 1000, effective uid
  and gid 0), with every lookup succeeding, and three variations of it: the start time
  lookup fails, the user name does not resolve, the start time is reported as 0.
\<close>

definition setuid_env :: process_env where
  "setuid_env =
     \<lparr>virIdentityInitialize = True, virObjectNew = True, getpid = 4242,
      getuid = 1000, geteuid = 0, getgid = 1000, getegid = 0,
      virProcessGetStartTime = (\<lambda>pid. if pid = 4242 then Some 987654 else None),
      virGetUserName = (\<lambda>uid. if uid = 0 then Some ''root''
                               else if uid = 1000 then Some ''alice'' else None),
      virGetGroupName = (\<lambda>gid. if gid = 0 then Some ''wheel''
                                else if gid = 1000 then Some ''users'' else None),
      WITH_SELINUX = True, is_selinux_enabled = 1,
      getcon = Some ''system_u:system_r:virtd_t''\<rparr>"

definition no_start_time_env :: process_env where
  "no_start_time_env = setuid_env\<lparr>virProcessGetStartTime := (\<lambda>pid. None)\<rparr>"

definition nameless_env :: process_env where
  "nameless_env = setuid_env\<lparr>virGetUserName := (\<lambda>uid. None)\<rparr>"

definition zero_start_time_env :: process_env where
  "zero_start_time_env = setuid_env\<lparr>virProcessGetStartTime := (\<lambda>pid. Some 0)\<rparr>"

text \<open>
  A store with two objects, each with one reference; thread 7 is bound to the object at
  16, no other thread is bound.
\<close>

definition two_objects :: store where
  "two_objects =
     \<lparr>heap = (\<lambda>a. if a = 16 then Some \<lparr>refs = 1, identity = empty_identity\<rparr>
                   else if a = 32 then Some \<lparr>refs = 1, identity = stamped_identity\<rparr>
                   else None),
      virIdentityCurrent = (\<lambda>t. if t = 7 then Some 16 else None)\<rparr>"

section \<open>Facts about the lookup\<close>

lemma virTypedParamsGet_append_absent:
  "virTypedParamsGet ps k = None \<Longrightarrow> virTypedParamsGet (ps @ [(k, v)]) k = Some (k, v)"
  by (induction ps) (auto simp: virTypedParamsGet_def)

lemma ucast_ucast_32_64: "(ucast (ucast (x :: 32 word) :: 64 word) :: 32 word) = x"
  by (rule bit_word_eqI) (auto simp: bit_simps)

lemma ucast_scast_32_64: "(ucast (scast (x :: 32 word) :: 64 word) :: 32 word) = x"
  by (rule bit_word_eqI) (auto simp: bit_simps)

lemma find_Some_holds: "find P xs = Some x \<Longrightarrow> x \<in> set xs \<and> P x"
  by (induction xs) (auto split: if_splits)

lemma store_heap_same: "heap s a = Some ob \<Longrightarrow> s\<lparr>heap := (heap s)(a \<mapsto> ob)\<rparr> = s"
  by (simp add: map_upd_triv)

lemmas setter_defs =
  virIdentitySetUserName_def virIdentitySetUNIXUserID_def virIdentitySetGroupName_def
  virIdentitySetUNIXGroupID_def virIdentitySetProcessID_def virIdentitySetProcessTime_def
  virIdentitySetSELinuxContext_def add_to_def virTypedParamsAddString_def
  virTypedParamsAddULLong_def virTypedParamsAddLLong_def

lemmas getter_defs =
  virIdentityGetUserName_def virIdentityGetUNIXUserID_def virIdentityGetGroupName_def
  virIdentityGetUNIXGroupID_def virIdentityGetProcessID_def virIdentityGetProcessTime_def
  virTypedParamsGetString_def virTypedParamsGetULLong_def virTypedParamsGetLLong_def

section \<open>Write-once setters\<close>

text \<open>
  What each setter does, by the outcome of its guard: with the key absent it appends the
  parameter and returns 0, with the key present it reports the error and returns -1
  with the object as it was.
\<close>

lemma virIdentitySetUserName_twice:
  assumes "fst (virIdentitySetUserName ident v) = Inr ()"
  shows "virIdentitySetUserName (snd (virIdentitySetUserName ident v)) w =
           (Inl VIR_ERR_OPERATION_DENIED, snd (virIdentitySetUserName ident v))"
    and "virIdentityGetUserName (snd (virIdentitySetUserName ident v)) = (1, Some v)"
proof -
  have absent: "virTypedParamsGet (params ident) VIR_CONNECT_IDENTITY_USER_NAME = None"
    using assms
    by (cases "virTypedParamsGet (params ident) VIR_CONNECT_IDENTITY_USER_NAME")
      (simp_all add: virIdentitySetUserName_def)
  note found = virTypedParamsGet_append_absent [OF absent]
  show "virIdentitySetUserName (snd (virIdentitySetUserName ident v)) w =
           (Inl VIR_ERR_OPERATION_DENIED, snd (virIdentitySetUserName ident v))"
    by (simp add: virIdentitySetUserName_def add_to_def virTypedParamsAddString_def absent found)
  show "virIdentityGetUserName (snd (virIdentitySetUserName ident v)) = (1, Some v)"
    by (simp add: virIdentitySetUserName_def virIdentityGetUserName_def add_to_def
        virTypedParamsAddString_def virTypedParamsGetString_def absent found)
qed

lemma virIdentitySetUNIXUserID_twice:
  assumes "fst (virIdentitySetUNIXUserID ident v) = Inr ()"
  shows "virIdentitySetUNIXUserID (snd (virIdentitySetUNIXUserID ident v)) w =
           (Inl VIR_ERR_OPERATION_DENIED, snd (virIdentitySetUNIXUserID ident v))"
    and "virIdentityGetUNIXUserID (snd (virIdentitySetUNIXUserID ident v)) = (1, v)"
proof -
  have absent: "virTypedParamsGet (params ident) VIR_CONNECT_IDENTITY_UNIX_USER_ID = None"
    using assms
    by (cases "virTypedParamsGet (params ident) VIR_CONNECT_IDENTITY_UNIX_USER_ID")
      (simp_all add: virIdentitySetUNIXUserID_def)
  note found = virTypedParamsGet_append_absent [OF absent]
  show "virIdentitySetUNIXUserID (snd (virIdentitySetUNIXUserID ident v)) w =
           (Inl VIR_ERR_OPERATION_DENIED, snd (virIdentitySetUNIXUserID ident v))"
    by (simp add: virIdentitySetUNIXUserID_def add_to_def virTypedParamsAddULLong_def absent found)
  show "virIdentityGetUNIXUserID (snd (virIdentitySetUNIXUserID ident v)) = (1, v)"
    by (simp add: virIdentitySetUNIXUserID_def virIdentityGetUNIXUserID_def add_to_def
        virTypedParamsAddULLong_def virTypedParamsGetULLong_def absent found ucast_ucast_32_64)
qed

lemma virIdentitySetGroupName_twice:
  assumes "fst (virIdentitySetGroupName ident v) = Inr ()"
  shows "virIdentitySetGroupName (snd (virIdentitySetGroupName ident v)) w =
           (Inl VIR_ERR_OPERATION_DENIED, snd (virIdentitySetGroupName ident v))"
    and "virIdentityGetGroupName (snd (virIdentitySetGroupName ident v)) = (1, Some v)"
proof -
  have absent: "virTypedParamsGet (params ident) VIR_CONNECT_IDENTITY_GROUP_NAME = None"
    using assms
    by (cases "virTypedParamsGet (params ident) VIR_CONNECT_IDENTITY_GROUP_NAME")
      (simp_all add: virIdentitySetGroupName_def)
  note found = virTypedParamsGet_append_absent [OF absent]
  show "virIdentitySetGroupName (snd (virIdentitySetGroupName ident v)) w =
           (Inl VIR_ERR_OPERATION_DENIED, snd (virIdentitySetGroupName ident v))"
    by (simp add: virIdentitySetGroupName_def add_to_def virTypedParamsAddString_def absent found)
  show "virIdentityGetGroupName (snd (virIdentitySetGroupName ident v)) = (1, Some v)"
    by (simp add: virIdentitySetGroupName_def virIdentityGetGroupName_def add_to_def
        virTypedParamsAddString_def virTypedParamsGetString_def absent found)
qed

lemma virIdentitySetUNIXGroupID_twice:
  assumes "fst (virIdentitySetUNIXGroupID ident v) = Inr ()"
  shows "virIdentitySetUNIXGroupID (snd (virIdentitySetUNIXGroupID ident v)) w =
           (Inl VIR_ERR_OPERATION_DENIED, snd (virIdentitySetUNIXGroupID ident v))"
    and "virIdentityGetUNIXGroupID (snd (virIdentitySetUNIXGroupID ident v)) = (1, v)"
proof -
  have absent: "virTypedParamsGet (params ident) VIR_CONNECT_IDENTITY_UNIX_GROUP_ID = None"
    using assms
    by (cases "virTypedParamsGet (params ident) VIR_CONNECT_IDENTITY_UNIX_GROUP_ID")
      (simp_all add: virIdentitySetUNIXGroupID_def)
  note found = virTypedParamsGet_append_absent [OF absent]
  show "virIdentitySetUNIXGroupID (snd (virIdentitySetUNIXGroupID ident v)) w =
           (Inl VIR_ERR_OPERATION_DENIED, snd (virIdentitySetUNIXGroupID ident v))"
    by (simp add: virIdentitySetUNIXGroupID_def add_to_def virTypedParamsAddULLong_def absent found)
  show "virIdentityGetUNIXGroupID (snd (virIdentitySetUNIXGroupID ident v)) = (1, v)"
    by (simp add: virIdentitySetUNIXGroupID_def virIdentityGetUNIXGroupID_def add_to_def
        virTypedParamsAddULLong_def virTypedParamsGetULLong_def absent found ucast_ucast_32_64)
qed

lemma virIdentitySetProcessID_twice:
  assumes "fst (virIdentitySetProcessID ident v) = Inr ()"
  shows "virIdentitySetProcessID (snd (virIdentitySetProcessID ident v)) w =
           (Inl VIR_ERR_OPERATION_DENIED, snd (virIdentitySetProcessID ident v))"
    and "virIdentityGetProcessID (snd (virIdentitySetProcessID ident v)) = (1, v)"
proof -
  have absent: "virTypedParamsGet (params ident) VIR_CONNECT_IDENTITY_PROCESS_ID = None"
    using assms
    by (cases "virTypedParamsGet (params ident) VIR_CONNECT_IDENTITY_PROCESS_ID")
      (simp_all add: virIdentitySetProcessID_def)
  note found = virTypedParamsGet_append_absent [OF absent]
  show "virIdentitySetProcessID (snd (virIdentitySetProcessID ident v)) w =
           (Inl VIR_ERR_OPERATION_DENIED, snd (virIdentitySetProcessID ident v))"
    by (simp add: virIdentitySetProcessID_def add_to_def virTypedParamsAddLLong_def absent found)
  show "virIdentityGetProcessID (snd (virIdentitySetProcessID ident v)) = (1, v)"
    by (simp add: virIdentitySetProcessID_def virIdentityGetProcessID_def add_to_def
        virTypedParamsAddLLong_def virTypedParamsGetLLong_def absent found ucast_scast_32_64)
qed

lemma virIdentitySetProcessTime_twice:
  assumes "fst (virIdentitySetProcessTime ident v) = Inr ()"
  shows "virIdentitySetProcessTime (snd (virIdentitySetProcessTime ident v)) w =
           (Inl VIR_ERR_OPERATION_DENIED, snd (virIdentitySetProcessTime ident v))"
    and "virIdentityGetProcessTime (snd (virIdentitySetProcessTime ident v)) = (1, v)"
proof -
  have absent: "virTypedParamsGet (params ident) VIR_CONNECT_IDENTITY_PROCESS_TIME = None"
    using assms
    by (cases "virTypedParamsGet (params ident) VIR_CONNECT_IDENTITY_PROCESS_TIME")
      (simp_all add: virIdentitySetProcessTime_def)
  note found = virTypedParamsGet_append_absent [OF absent]
  show "virIdentitySetProcessTime (snd (virIdentitySetProcessTime ident v)) w =
           (Inl VIR_ERR_OPERATION_DENIED, snd (virIdentitySetProcessTime ident v))"
    by (simp add: virIdentitySetProcessTime_def add_to_def virTypedParamsAddULLong_def absent found)
  show "virIdentityGetProcessTime (snd (virIdentitySetProcessTime ident v)) = (1, v)"
    by (simp add: virIdentitySetProcessTime_def virIdentityGetProcessTime_def add_to_def
        virTypedParamsAddULLong_def virTypedParamsGetULLong_def absent found)
qed

lemma virIdentitySetSASLUserName_twice:
  assumes "fst (virIdentitySetSASLUserName ident v) = Inr ()"
  shows "virIdentitySetSASLUserName (snd (virIdentitySetSASLUserName ident v)) w =
           (Inl VIR_ERR_OPERATION_DENIED, snd (virIdentitySetSASLUserName ident v))"
    and "virIdentityGetSASLUserName (snd (virIdentitySetSASLUserName ident v)) = (1, Some v)"
proof -
  have absent: "virTypedParamsGet (params ident) VIR_CONNECT_IDENTITY_SASL_USER_NAME = None"
    using assms
    by (cases "virTypedParamsGet (params ident) VIR_CONNECT_IDENTITY_SASL_USER_NAME")
      (simp_all add: virIdentitySetSASLUserName_def)
  note found = virTypedParamsGet_append_absent [OF absent]
  show "virIdentitySetSASLUserName (snd (virIdentitySetSASLUserName ident v)) w =
           (Inl VIR_ERR_OPERATION_DENIED, snd (virIdentitySetSASLUserName ident v))"
    by (simp add: virIdentitySetSASLUserName_def add_to_def virTypedParamsAddString_def absent found)
  show "virIdentityGetSASLUserName (snd (virIdentitySetSASLUserName ident v)) = (1, Some v)"
    by (simp add: virIdentitySetSASLUserName_def virIdentityGetSASLUserName_def add_to_def
        virTypedParamsAddString_def virTypedParamsGetString_def absent found)
qed

lemma virIdentitySetX509DName_twice:
  assumes "fst (virIdentitySetX509DName ident v) = Inr ()"
  shows "virIdentitySetX509DName (snd (virIdentitySetX509DName ident v)) w =
           (Inl VIR_ERR_OPERATION_DENIED, snd (virIdentitySetX509DName ident v))"
    and "virIdentityGetX509DName (snd (virIdentitySetX509DName ident v)) = (1, Some v)"
proof -
  have absent: "virTypedParamsGet (params ident) VIR_CONNECT_IDENTITY_X509_DISTINGUISHED_NAME = None"
    using assms
    by (cases "virTypedParamsGet (params ident) VIR_CONNECT_IDENTITY_X509_DISTINGUISHED_NAME")
      (simp_all add: virIdentitySetX509DName_def)
  note found = virTypedParamsGet_append_absent [OF absent]
  show "virIdentitySetX509DName (snd (virIdentitySetX509DName ident v)) w =
           (Inl VIR_ERR_OPERATION_DENIED, snd (virIdentitySetX509DName ident v))"
    by (simp add: virIdentitySetX509DName_def add_to_def virTypedParamsAddString_def absent found)
  show "virIdentityGetX509DName (snd (virIdentitySetX509DName ident v)) = (1, Some v)"
    by (simp add: virIdentitySetX509DName_def virIdentityGetX509DName_def add_to_def
        virTypedParamsAddString_def virTypedParamsGetString_def absent found)
qed

lemma virIdentitySetSELinuxContext_twice:
  assumes "fst (virIdentitySetSELinuxContext ident v) = Inr ()"
  shows "virIdentitySetSELinuxContext (snd (virIdentitySetSELinuxContext ident v)) w =
           (Inl VIR_ERR_OPERATION_DENIED, snd (virIdentitySetSELinuxContext ident v))"
    and "virIdentityGetSELinuxContext (snd (virIdentitySetSELinuxContext ident v)) = (1, Some v)"
proof -
  have absent: "virTypedParamsGet (params ident) VIR_CONNECT_IDENTITY_SELINUX_CONTEXT = None"
    using assms
    by (cases "virTypedParamsGet (params ident) VIR_CONNECT_IDENTITY_SELINUX_CONTEXT")
      (simp_all add: virIdentitySetSELinuxContext_def)
  note found = virTypedParamsGet_append_absent [OF absent]
  show "virIdentitySetSELinuxContext (snd (virIdentitySetSELinuxContext ident v)) w =
           (Inl VIR_ERR_OPERATION_DENIED, snd (virIdentitySetSELinuxContext ident v))"
    by (simp add: virIdentitySetSELinuxContext_def add_to_def virTypedParamsAddString_def absent found)
  show "virIdentityGetSELinuxContext (snd (virIdentitySetSELinuxContext ident v)) = (1, Some v)"
    by (simp add: virIdentitySetSELinuxContext_def virIdentityGetSELinuxContext_def add_to_def
        virTypedParamsAddString_def virTypedParamsGetString_def absent found)
qed

text \<open>
  Claim C1. For every identity and each of the nine setters: when a first call of the
  setter has written the key (it returned 0), a second call of the same setter, with
  any value, returns -1 with \<^verbatim>\<open>VIR_ERR_OPERATION_DENIED\<close> (the spec's AlreadySet) and
  leaves the object as the first call left it; the getter of the key still reports
  the key present with the value of the first call after the failed second call.
\<close>

theorem setter_twice_already_set:
  "(fst (virIdentitySetUserName ident name_a) = Inr () \<longrightarrow>
       virIdentitySetUserName (snd (virIdentitySetUserName ident name_a)) name_b =
         (Inl VIR_ERR_OPERATION_DENIED, snd (virIdentitySetUserName ident name_a)) \<and>
       virIdentityGetUserName (snd (virIdentitySetUserName (snd (virIdentitySetUserName ident name_a)) name_b)) =
         (1, Some name_a)) \<and>
   (fst (virIdentitySetUNIXUserID ident uid_a) = Inr () \<longrightarrow>
       virIdentitySetUNIXUserID (snd (virIdentitySetUNIXUserID ident uid_a)) uid_b =
         (Inl VIR_ERR_OPERATION_DENIED, snd (virIdentitySetUNIXUserID ident uid_a)) \<and>
       virIdentityGetUNIXUserID (snd (virIdentitySetUNIXUserID (snd (virIdentitySetUNIXUserID ident uid_a)) uid_b)) =
         (1, uid_a)) \<and>
   (fst (virIdentitySetGroupName ident group_a) = Inr () \<longrightarrow>
       virIdentitySetGroupName (snd (virIdentitySetGroupName ident group_a)) group_b =
         (Inl VIR_ERR_OPERATION_DENIED, snd (virIdentitySetGroupName ident group_a)) \<and>
       virIdentityGetGroupName (snd (virIdentitySetGroupName (snd (virIdentitySetGroupName ident group_a)) group_b)) =
         (1, Some group_a)) \<and>
   (fst (virIdentitySetUNIXGroupID ident gid_a) = Inr () \<longrightarrow>
       virIdentitySetUNIXGroupID (snd (virIdentitySetUNIXGroupID ident gid_a)) gid_b =
         (Inl VIR_ERR_OPERATION_DENIED, snd (virIdentitySetUNIXGroupID ident gid_a)) \<and>
       virIdentityGetUNIXGroupID (snd (virIdentitySetUNIXGroupID (snd (virIdentitySetUNIXGroupID ident gid_a)) gid_b)) =
         (1, gid_a)) \<and>
   (fst (virIdentitySetProcessID ident pid_a) = Inr () \<longrightarrow>
       virIdentitySetProcessID (snd (virIdentitySetProcessID ident pid_a)) pid_b =
         (Inl VIR_ERR_OPERATION_DENIED, snd (virIdentitySetProcessID ident pid_a)) \<and>
       virIdentityGetProcessID (snd (virIdentitySetProcessID (snd (virIdentitySetProcessID ident pid_a)) pid_b)) =
         (1, pid_a)) \<and>
   (fst (virIdentitySetProcessTime ident time_a) = Inr () \<longrightarrow>
       virIdentitySetProcessTime (snd (virIdentitySetProcessTime ident time_a)) time_b =
         (Inl VIR_ERR_OPERATION_DENIED, snd (virIdentitySetProcessTime ident time_a)) \<and>
       virIdentityGetProcessTime (snd (virIdentitySetProcessTime (snd (virIdentitySetProcessTime ident time_a)) time_b)) =
         (1, time_a)) \<and>
   (fst (virIdentitySetSASLUserName ident sasl_a) = Inr () \<longrightarrow>
       virIdentitySetSASLUserName (snd (virIdentitySetSASLUserName ident sasl_a)) sasl_b =
         (Inl VIR_ERR_OPERATION_DENIED, snd (virIdentitySetSASLUserName ident sasl_a)) \<and>
       virIdentityGetSASLUserName (snd (virIdentitySetSASLUserName (snd (virIdentitySetSASLUserName ident sasl_a)) sasl_b)) =
         (1, Some sasl_a)) \<and>
   (fst (virIdentitySetX509DName ident dname_a) = Inr () \<longrightarrow>
       virIdentitySetX509DName (snd (virIdentitySetX509DName ident dname_a)) dname_b =
         (Inl VIR_ERR_OPERATION_DENIED, snd (virIdentitySetX509DName ident dname_a)) \<and>
       virIdentityGetX509DName (snd (virIdentitySetX509DName (snd (virIdentitySetX509DName ident dname_a)) dname_b)) =
         (1, Some dname_a)) \<and>
   (fst (virIdentitySetSELinuxContext ident con_a) = Inr () \<longrightarrow>
       virIdentitySetSELinuxContext (snd (virIdentitySetSELinuxContext ident con_a)) con_b =
         (Inl VIR_ERR_OPERATION_DENIED, snd (virIdentitySetSELinuxContext ident con_a)) \<and>
       virIdentityGetSELinuxContext (snd (virIdentitySetSELinuxContext (snd (virIdentitySetSELinuxContext ident con_a)) con_b)) =
         (1, Some con_a))"
  by (simp add: virIdentitySetUserName_twice virIdentitySetUNIXUserID_twice virIdentitySetGroupName_twice virIdentitySetUNIXGroupID_twice virIdentitySetProcessID_twice virIdentitySetProcessTime_twice virIdentitySetSASLUserName_twice virIdentitySetX509DName_twice virIdentitySetSELinuxContext_twice)

theorem setter_twice_already_set_witness:
  "fst (virIdentitySetUserName empty_identity ''root'') = Inr () \<and>
   virIdentitySetUserName (snd (virIdentitySetUserName empty_identity ''root'')) ''guest'' =
     (Inl VIR_ERR_OPERATION_DENIED, snd (virIdentitySetUserName empty_identity ''root'')) \<and>
   virIdentityGetUserName (snd (virIdentitySetUserName (snd (virIdentitySetUserName empty_identity ''root'')) ''guest'')) =
     (1, Some ''root'') \<and>
   fst (virIdentitySetUNIXUserID empty_identity 0) = Inr () \<and>
   virIdentitySetUNIXUserID (snd (virIdentitySetUNIXUserID empty_identity 0)) 1000 =
     (Inl VIR_ERR_OPERATION_DENIED, snd (virIdentitySetUNIXUserID empty_identity 0)) \<and>
   virIdentityGetUNIXUserID (snd (virIdentitySetUNIXUserID (snd (virIdentitySetUNIXUserID empty_identity 0)) 1000)) =
     (1, 0) \<and>
   fst (virIdentitySetGroupName empty_identity ''wheel'') = Inr () \<and>
   virIdentitySetGroupName (snd (virIdentitySetGroupName empty_identity ''wheel'')) ''users'' =
     (Inl VIR_ERR_OPERATION_DENIED, snd (virIdentitySetGroupName empty_identity ''wheel'')) \<and>
   virIdentityGetGroupName (snd (virIdentitySetGroupName (snd (virIdentitySetGroupName empty_identity ''wheel'')) ''users'')) =
     (1, Some ''wheel'') \<and>
   fst (virIdentitySetUNIXGroupID empty_identity 10) = Inr () \<and>
   virIdentitySetUNIXGroupID (snd (virIdentitySetUNIXGroupID empty_identity 10)) 100 =
     (Inl VIR_ERR_OPERATION_DENIED, snd (virIdentitySetUNIXGroupID empty_identity 10)) \<and>
   virIdentityGetUNIXGroupID (snd (virIdentitySetUNIXGroupID (snd (virIdentitySetUNIXGroupID empty_identity 10)) 100)) =
     (1, 10) \<and>
   fst (virIdentitySetProcessID empty_identity 4242) = Inr () \<and>
   virIdentitySetProcessID (snd (virIdentitySetProcessID empty_identity 4242)) 1 =
     (Inl VIR_ERR_OPERATION_DENIED, snd (virIdentitySetProcessID empty_identity 4242)) \<and>
   virIdentityGetProcessID (snd (virIdentitySetProcessID (snd (virIdentitySetProcessID empty_identity 4242)) 1)) =
     (1, 4242) \<and>
   fst (virIdentitySetProcessTime empty_identity 77) = Inr () \<and>
   virIdentitySetProcessTime (snd (virIdentitySetProcessTime empty_identity 77)) 78 =
     (Inl VIR_ERR_OPERATION_DENIED, snd (virIdentitySetProcessTime empty_identity 77)) \<and>
   virIdentityGetProcessTime (snd (virIdentitySetProcessTime (snd (virIdentitySetProcessTime empty_identity 77)) 78)) =
     (1, 77) \<and>
   fst (virIdentitySetSASLUserName empty_identity ''alice'') = Inr () \<and>
   virIdentitySetSASLUserName (snd (virIdentitySetSASLUserName empty_identity ''alice'')) ''bob'' =
     (Inl VIR_ERR_OPERATION_DENIED, snd (virIdentitySetSASLUserName empty_identity ''alice'')) \<and>
   virIdentityGetSASLUserName (snd (virIdentitySetSASLUserName (snd (virIdentitySetSASLUserName empty_identity ''alice'')) ''bob'')) =
     (1, Some ''alice'') \<and>
   fst (virIdentitySetX509DName empty_identity ''CN=a'') = Inr () \<and>
   virIdentitySetX509DName (snd (virIdentitySetX509DName empty_identity ''CN=a'')) ''CN=b'' =
     (Inl VIR_ERR_OPERATION_DENIED, snd (virIdentitySetX509DName empty_identity ''CN=a'')) \<and>
   virIdentityGetX509DName (snd (virIdentitySetX509DName (snd (virIdentitySetX509DName empty_identity ''CN=a'')) ''CN=b'')) =
     (1, Some ''CN=a'') \<and>
   fst (virIdentitySetSELinuxContext empty_identity ''system_u'') = Inr () \<and>
   virIdentitySetSELinuxContext (snd (virIdentitySetSELinuxContext empty_identity ''system_u'')) ''user_u'' =
     (Inl VIR_ERR_OPERATION_DENIED, snd (virIdentitySetSELinuxContext empty_identity ''system_u'')) \<and>
   virIdentityGetSELinuxContext (snd (virIdentitySetSELinuxContext (snd (virIdentitySetSELinuxContext empty_identity ''system_u'')) ''user_u'')) =
     (1, Some ''system_u'')"
proof -
  have h1: "fst (virIdentitySetUserName empty_identity ''root'') = Inr ()"
    by (simp add: virIdentitySetUserName_def add_to_def virTypedParamsAddString_def virTypedParamsGet_def
        empty_identity_def)
  have h2: "fst (virIdentitySetUNIXUserID empty_identity 0) = Inr ()"
    by (simp add: virIdentitySetUNIXUserID_def add_to_def virTypedParamsAddULLong_def virTypedParamsGet_def
        empty_identity_def)
  have h3: "fst (virIdentitySetGroupName empty_identity ''wheel'') = Inr ()"
    by (simp add: virIdentitySetGroupName_def add_to_def virTypedParamsAddString_def virTypedParamsGet_def
        empty_identity_def)
  have h4: "fst (virIdentitySetUNIXGroupID empty_identity 10) = Inr ()"
    by (simp add: virIdentitySetUNIXGroupID_def add_to_def virTypedParamsAddULLong_def virTypedParamsGet_def
        empty_identity_def)
  have h5: "fst (virIdentitySetProcessID empty_identity 4242) = Inr ()"
    by (simp add: virIdentitySetProcessID_def add_to_def virTypedParamsAddLLong_def virTypedParamsGet_def
        empty_identity_def)
  have h6: "fst (virIdentitySetProcessTime empty_identity 77) = Inr ()"
    by (simp add: virIdentitySetProcessTime_def add_to_def virTypedParamsAddULLong_def virTypedParamsGet_def
        empty_identity_def)
  have h7: "fst (virIdentitySetSASLUserName empty_identity ''alice'') = Inr ()"
    by (simp add: virIdentitySetSASLUserName_def add_to_def virTypedParamsAddString_def virTypedParamsGet_def
        empty_identity_def)
  have h8: "fst (virIdentitySetX509DName empty_identity ''CN=a'') = Inr ()"
    by (simp add: virIdentitySetX509DName_def add_to_def virTypedParamsAddString_def virTypedParamsGet_def
        empty_identity_def)
  have h9: "fst (virIdentitySetSELinuxContext empty_identity ''system_u'') = Inr ()"
    by (simp add: virIdentitySetSELinuxContext_def add_to_def virTypedParamsAddString_def virTypedParamsGet_def
        empty_identity_def)
  show ?thesis
    using h1 h2 h3 h4 h5 h6 h7 h8 h9
      setter_twice_already_set [where ident = empty_identity
        and name_a = "''root''"
        and name_b = "''guest''"
        and uid_a = "0"
        and uid_b = "1000"
        and group_a = "''wheel''"
        and group_b = "''users''"
        and gid_a = "10"
        and gid_b = "100"
        and pid_a = "4242"
        and pid_b = "1"
        and time_a = "77"
        and time_b = "78"
        and sasl_a = "''alice''"
        and sasl_b = "''bob''"
        and dname_a = "''CN=a''"
        and dname_b = "''CN=b''"
        and con_a = "''system_u''"
        and con_b = "''user_u''"]
    by blast
qed

section \<open>Getters and their sentinels\<close>

lemma virTypedParamsGetString_sentinel:
  "fst (virTypedParamsGetString ps k out) \<le> 0 \<Longrightarrow> snd (virTypedParamsGetString ps k out) = out"
  by (auto simp: virTypedParamsGetString_def split: option.splits virTypedParameterValue.splits)

lemma virTypedParamsGetULLong_sentinel:
  "fst (virTypedParamsGetULLong ps k out) \<le> 0 \<Longrightarrow> snd (virTypedParamsGetULLong ps k out) = out"
  by (auto simp: virTypedParamsGetULLong_def split: option.splits virTypedParameterValue.splits)

lemma virIdentityGetUNIXUserID_sentinel:
  "fst (virIdentityGetUNIXUserID ident) \<le> 0 \<Longrightarrow> snd (virIdentityGetUNIXUserID ident) = -1"
  by (auto simp: virIdentityGetUNIXUserID_def Let_def split: prod.splits if_splits)

lemma virIdentityGetUNIXGroupID_sentinel:
  "fst (virIdentityGetUNIXGroupID ident) \<le> 0 \<Longrightarrow> snd (virIdentityGetUNIXGroupID ident) = -1"
  by (auto simp: virIdentityGetUNIXGroupID_def Let_def split: prod.splits if_splits)

lemma virIdentityGetProcessID_sentinel:
  "fst (virIdentityGetProcessID ident) \<le> 0 \<Longrightarrow> snd (virIdentityGetProcessID ident) = 0"
  by (auto simp: virIdentityGetProcessID_def Let_def split: prod.splits if_splits)

text \<open>
  Claim C8. Every getter sets its output to a fixed value before the lookup: NULL for
  the five string attributes, \<open>(uid_t)-1\<close> and \<open>(gid_t)-1\<close> for the numeric ids, 0 for the
  process id and the process start time. Whenever a getter returns 0 (absent) or -1
  (error), that value is what the output holds.
\<close>

theorem getter_sentinel_when_not_present:
  "(fst (virIdentityGetUserName ident) \<le> 0 \<longrightarrow> snd (virIdentityGetUserName ident) = None) \<and>
   (fst (virIdentityGetUNIXUserID ident) \<le> 0 \<longrightarrow>
      snd (virIdentityGetUNIXUserID ident) = (-1 :: uid_t)) \<and>
   (fst (virIdentityGetGroupName ident) \<le> 0 \<longrightarrow> snd (virIdentityGetGroupName ident) = None) \<and>
   (fst (virIdentityGetUNIXGroupID ident) \<le> 0 \<longrightarrow>
      snd (virIdentityGetUNIXGroupID ident) = (-1 :: gid_t)) \<and>
   (fst (virIdentityGetProcessID ident) \<le> 0 \<longrightarrow>
      snd (virIdentityGetProcessID ident) = (0 :: pid_t)) \<and>
   (fst (virIdentityGetProcessTime ident) \<le> 0 \<longrightarrow>
      snd (virIdentityGetProcessTime ident) = (0 :: ullong)) \<and>
   (fst (virIdentityGetSASLUserName ident) \<le> 0 \<longrightarrow>
      snd (virIdentityGetSASLUserName ident) = None) \<and>
   (fst (virIdentityGetX509DName ident) \<le> 0 \<longrightarrow> snd (virIdentityGetX509DName ident) = None) \<and>
   (fst (virIdentityGetSELinuxContext ident) \<le> 0 \<longrightarrow>
      snd (virIdentityGetSELinuxContext ident) = None)"
  by (simp add: virIdentityGetUserName_def virIdentityGetGroupName_def
      virIdentityGetProcessTime_def virIdentityGetSASLUserName_def virIdentityGetX509DName_def
      virIdentityGetSELinuxContext_def virTypedParamsGetString_sentinel
      virTypedParamsGetULLong_sentinel virIdentityGetUNIXUserID_sentinel
      virIdentityGetUNIXGroupID_sentinel virIdentityGetProcessID_sentinel)

lemmas getter_eval =
  mistyped_identity_def identity_keys virTypedParamsGet_def virTypedParamsGetString_def
  virTypedParamsGetULLong_def virTypedParamsGetLLong_def

theorem getter_sentinel_when_not_present_witness:
  "fst (virIdentityGetUserName mistyped_identity) = -1 \<and>
   snd (virIdentityGetUserName mistyped_identity) = None \<and>
   fst (virIdentityGetUNIXUserID mistyped_identity) = -1 \<and>
   snd (virIdentityGetUNIXUserID mistyped_identity) = -1 \<and>
   fst (virIdentityGetGroupName mistyped_identity) = 0 \<and>
   snd (virIdentityGetGroupName mistyped_identity) = None \<and>
   fst (virIdentityGetUNIXGroupID mistyped_identity) = 0 \<and>
   snd (virIdentityGetUNIXGroupID mistyped_identity) = -1 \<and>
   fst (virIdentityGetProcessID mistyped_identity) = -1 \<and>
   snd (virIdentityGetProcessID mistyped_identity) = 0 \<and>
   fst (virIdentityGetProcessTime mistyped_identity) = -1 \<and>
   snd (virIdentityGetProcessTime mistyped_identity) = 0 \<and>
   fst (virIdentityGetSASLUserName mistyped_identity) = 0 \<and>
   snd (virIdentityGetSASLUserName mistyped_identity) = None \<and>
   fst (virIdentityGetX509DName mistyped_identity) = 0 \<and>
   snd (virIdentityGetX509DName mistyped_identity) = None \<and>
   fst (virIdentityGetSELinuxContext mistyped_identity) = 0 \<and>
   snd (virIdentityGetSELinuxContext mistyped_identity) = None"
proof -
  have r1: "fst (virIdentityGetUserName mistyped_identity) = -1"
    by (simp add: virIdentityGetUserName_def getter_eval)
  have r2: "fst (virIdentityGetUNIXUserID mistyped_identity) = -1"
    by (simp add: virIdentityGetUNIXUserID_def getter_eval)
  have r3: "fst (virIdentityGetGroupName mistyped_identity) = 0"
    by (simp add: virIdentityGetGroupName_def getter_eval)
  have r4: "fst (virIdentityGetUNIXGroupID mistyped_identity) = 0"
    by (simp add: virIdentityGetUNIXGroupID_def getter_eval)
  have r5: "fst (virIdentityGetProcessID mistyped_identity) = -1"
    by (simp add: virIdentityGetProcessID_def getter_eval)
  have r6: "fst (virIdentityGetProcessTime mistyped_identity) = -1"
    by (simp add: virIdentityGetProcessTime_def getter_eval)
  have r7: "fst (virIdentityGetSASLUserName mistyped_identity) = 0"
    by (simp add: virIdentityGetSASLUserName_def getter_eval)
  have r8: "fst (virIdentityGetX509DName mistyped_identity) = 0"
    by (simp add: virIdentityGetX509DName_def getter_eval)
  have r9: "fst (virIdentityGetSELinuxContext mistyped_identity) = 0"
    by (simp add: virIdentityGetSELinuxContext_def getter_eval)
  have le: "(-1 :: int) \<le> 0" "(0 :: int) \<le> 0"
    by simp_all
  show ?thesis
    using getter_sentinel_when_not_present [of mistyped_identity] le
    unfolding r1 r2 r3 r4 r5 r6 r7 r8 r9
    by blast
qed

section \<open>Bulk access\<close>

lemma not_admitted_iff:
  "(map_of identity_schema (fst p) \<noteq> Some (type_of_val (snd p))) =
     (known_key_wrong_type p \<or> unknown_key p)"
  by (auto simp: known_key_wrong_type_def unknown_key_def split: option.splits)

lemma virTypedParamsValidate_ok_iff:
  "(virTypedParamsValidate ps identity_schema = Inr ()) =
     (\<not> (\<exists>p \<in> set ps. known_key_wrong_type p \<or> unknown_key p))"
proof (cases "find (\<lambda>p. map_of identity_schema (fst p) \<noteq> Some (type_of_val (snd p))) ps")
  case None
  then have "\<not> (\<exists>p \<in> set ps. known_key_wrong_type p \<or> unknown_key p)"
    unfolding find_None_iff not_admitted_iff by blast
  then show ?thesis
    by (simp add: virTypedParamsValidate_def None)
next
  case (Some p)
  from find_Some_holds [OF Some] have "p \<in> set ps" "known_key_wrong_type p \<or> unknown_key p"
    by (simp_all add: not_admitted_iff)
  then have "\<exists>p \<in> set ps. known_key_wrong_type p \<or> unknown_key p"
    by blast
  then show ?thesis
    by (simp add: virTypedParamsValidate_def Some split: option.splits)
qed

lemma virTypedParamsValidate_TypeMismatch:
  "virTypedParamsValidate ps identity_schema = Inl TypeMismatch \<Longrightarrow>
     \<exists>p \<in> set ps. known_key_wrong_type p"
  by (auto simp: virTypedParamsValidate_def known_key_wrong_type_def
      split: option.splits dest!: find_Some_holds)

lemma virTypedParamsValidate_UnknownAttribute:
  "virTypedParamsValidate ps identity_schema = Inl UnknownAttribute \<Longrightarrow>
     \<exists>p \<in> set ps. unknown_key p"
  by (auto simp: virTypedParamsValidate_def unknown_key_def
      split: option.splits dest!: find_Some_holds)

lemma virTypedParamsValidate_errors:
  "virTypedParamsValidate ps keys = Inl e \<Longrightarrow> e = TypeMismatch \<or> e = UnknownAttribute"
  by (auto simp: virTypedParamsValidate_def split: option.splits)

lemma virIdentitySetParameters_rejects:
  assumes "\<exists>p \<in> set bag. known_key_wrong_type p \<or> unknown_key p"
  shows "fst (virIdentitySetParameters ident bag) = Inl TypeMismatch \<or>
         fst (virIdentitySetParameters ident bag) = Inl UnknownAttribute"
    and "snd (virIdentitySetParameters ident bag) = ident"
proof -
  from assms have "virTypedParamsValidate bag identity_schema \<noteq> Inr ()"
    by (simp add: virTypedParamsValidate_ok_iff)
  then obtain e where e: "virTypedParamsValidate bag identity_schema = Inl e"
    by (cases "virTypedParamsValidate bag identity_schema") auto
  from virTypedParamsValidate_errors [OF e]
  show "fst (virIdentitySetParameters ident bag) = Inl TypeMismatch \<or>
        fst (virIdentitySetParameters ident bag) = Inl UnknownAttribute"
    by (auto simp: virIdentitySetParameters_def e)
  show "snd (virIdentitySetParameters ident bag) = ident"
    by (simp add: virIdentitySetParameters_def e)
qed

lemma virIdentitySetParameters_accepts:
  assumes "\<not> (\<exists>p \<in> set bag. known_key_wrong_type p \<or> unknown_key p)"
  shows "virIdentitySetParameters ident bag = (Inr (), ident\<lparr>params := bag\<rparr>)"
proof -
  from assms have "virTypedParamsValidate bag identity_schema = Inr ()"
    by (simp add: virTypedParamsValidate_ok_iff)
  then show ?thesis
    by (simp add: virIdentitySetParameters_def virTypedParamsCopy_def)
qed

lemma virIdentitySetParameters_error_kind:
  "fst (virIdentitySetParameters ident bag) = Inl TypeMismatch \<Longrightarrow>
     \<exists>p \<in> set bag. known_key_wrong_type p"
  "fst (virIdentitySetParameters ident bag) = Inl UnknownAttribute \<Longrightarrow>
     \<exists>p \<in> set bag. unknown_key p"
  by (auto simp: virIdentitySetParameters_def virTypedParamsCopy_def
      split: sum.splits dest: virTypedParamsValidate_TypeMismatch
      virTypedParamsValidate_UnknownAttribute)

text \<open>
  Claim C4. \<^verbatim>\<open>virIdentitySetParameters\<close> refuses a bag exactly when one of its parameters
  has a known key with the wrong type or an unknown key: it then returns an error,
  \<open>TypeMismatch\<close> only if some known key has the wrong type and \<open>UnknownAttribute\<close> only if
  some key is unknown, and the identity is as it was. Every other bag replaces all the
  parameters the identity had, whatever keys were set before.
\<close>

theorem setParameters_rejects_or_replaces:
  "((\<exists>p \<in> set bag. known_key_wrong_type p \<or> unknown_key p) \<longrightarrow>
      (fst (virIdentitySetParameters ident bag) = Inl TypeMismatch \<or>
       fst (virIdentitySetParameters ident bag) = Inl UnknownAttribute) \<and>
      snd (virIdentitySetParameters ident bag) = ident) \<and>
   (\<not> (\<exists>p \<in> set bag. known_key_wrong_type p \<or> unknown_key p) \<longrightarrow>
      virIdentitySetParameters ident bag = (Inr (), ident\<lparr>params := bag\<rparr>)) \<and>
   (fst (virIdentitySetParameters ident bag) = Inl TypeMismatch \<longrightarrow>
      (\<exists>p \<in> set bag. known_key_wrong_type p)) \<and>
   (fst (virIdentitySetParameters ident bag) = Inl UnknownAttribute \<longrightarrow>
      (\<exists>p \<in> set bag. unknown_key p))"
  using virIdentitySetParameters_rejects [of bag ident]
    virIdentitySetParameters_accepts [of bag ident]
    virIdentitySetParameters_error_kind [of ident bag]
  by blast

lemmas bag_eval =
  identity_schema_def identity_keys known_key_wrong_type_def unknown_key_def

theorem setParameters_rejects_or_replaces_witness:
  "virIdentitySetParameters stamped_identity accepted_bag =
     (Inr (), stamped_identity\<lparr>params := accepted_bag\<rparr>) \<and>
   virIdentitySetParameters stamped_identity mistyped_bag = (Inl TypeMismatch, stamped_identity) \<and>
   virIdentitySetParameters stamped_identity unknown_bag =
     (Inl UnknownAttribute, stamped_identity)"
proof -
  have ok: "\<not> (\<exists>p \<in> set accepted_bag. known_key_wrong_type p \<or> unknown_key p)"
    by (simp add: accepted_bag_def bag_eval)
  have wrong: "\<exists>p \<in> set mistyped_bag. known_key_wrong_type p \<or> unknown_key p"
    by (simp add: mistyped_bag_def bag_eval)
  have no_unknown: "\<not> (\<exists>p \<in> set mistyped_bag. unknown_key p)"
    by (simp add: mistyped_bag_def bag_eval)
  have unknown: "\<exists>p \<in> set unknown_bag. known_key_wrong_type p \<or> unknown_key p"
    by (simp add: unknown_bag_def bag_eval)
  have no_wrong: "\<not> (\<exists>p \<in> set unknown_bag. known_key_wrong_type p)"
    by (simp add: unknown_bag_def bag_eval)
  have a: "virIdentitySetParameters stamped_identity accepted_bag =
             (Inr (), stamped_identity\<lparr>params := accepted_bag\<rparr>)"
    using setParameters_rejects_or_replaces [of accepted_bag stamped_identity] ok by blast
  have b: "virIdentitySetParameters stamped_identity mistyped_bag =
             (Inl TypeMismatch, stamped_identity)"
    using setParameters_rejects_or_replaces [of mistyped_bag stamped_identity] wrong no_unknown
    by (metis prod.collapse)
  have c: "virIdentitySetParameters stamped_identity unknown_bag =
             (Inl UnknownAttribute, stamped_identity)"
    using setParameters_rejects_or_replaces [of unknown_bag stamped_identity] unknown no_wrong
    by (metis prod.collapse)
  from a b c show ?thesis by blast
qed

text \<open>
  Claim C5. After \<^verbatim>\<open>virIdentitySetParameters\<close> has accepted a bag,
  \<^verbatim>\<open>virIdentityGetParameters\<close> on the same identity returns 0 and the parameters of the
  bag: the same keys with the same types and values, in the same order.
\<close>

theorem setParameters_getParameters_roundtrip:
  "fst (virIdentitySetParameters ident bag) = Inr () \<Longrightarrow>
     virIdentityGetParameters (snd (virIdentitySetParameters ident bag)) = (Inr (), bag)"
  by (auto simp: virIdentitySetParameters_def virIdentityGetParameters_def
      virTypedParamsCopy_def split: sum.splits)

theorem setParameters_getParameters_roundtrip_witness:
  "fst (virIdentitySetParameters stamped_identity accepted_bag) = Inr () \<and>
   virIdentityGetParameters (snd (virIdentitySetParameters stamped_identity accepted_bag)) =
     (Inr (),
      [(VIR_CONNECT_IDENTITY_USER_NAME, String_val ''alice''),
       (VIR_CONNECT_IDENTITY_PROCESS_ID, LLong_val 4242),
       (VIR_CONNECT_IDENTITY_SASL_USER_NAME, String_val ''alice@EXAMPLE'')])"
proof -
  have h: "fst (virIdentitySetParameters stamped_identity accepted_bag) = Inr ()"
    by (simp add: virIdentitySetParameters_def virTypedParamsValidate_def
        virTypedParamsCopy_def accepted_bag_def bag_eval)
  from setParameters_getParameters_roundtrip [OF h] h show ?thesis
    by (simp add: accepted_bag_def)
qed

section \<open>The identity of the process\<close>

lemmas system_eval =
  virIdentityGetSystem_def virIdentityNew_def system_selinux_def empty_identity_def setter_defs
  virTypedParamsGet_def identity_keys

text \<open>
  What \<^verbatim>\<open>virIdentityGetSystem\<close> stores when both names resolve: the names of the
  effective ids, and the real ids as the numbers.
\<close>

lemma virIdentityGetSystem_names_and_ids:
  assumes "virIdentityInitialize env" and "virObjectNew env"
    and "virProcessGetStartTime env (getpid env) \<noteq> None"
    and "virGetUserName env (geteuid env) = Some username"
    and "virGetGroupName env (getegid env) = Some groupname"
  shows "\<exists>ident. virIdentityGetSystem env = Some ident \<and>
           virIdentityGetUserName ident = (1, Some username) \<and>
           virIdentityGetUNIXUserID ident = (1, getuid env) \<and>
           virIdentityGetGroupName ident = (1, Some groupname) \<and>
           virIdentityGetUNIXGroupID ident = (1, getgid env)"
  using assms
  by (auto simp: system_eval getter_defs ucast_ucast_32_64 split: option.splits)

text \<open>
  Claim C3, evaluated on a process with real uid and gid 1000 and effective uid and
  gid 0, all names resolving. The identity carries the names of the effective ids,
  "root" and "wheel", and all four getters report the attribute present; the numeric ids
  are the real ones, 1000, where the claim has the effective ones, 0.
\<close>

theorem system_identity_real_ids:
  "geteuid setuid_env = 0 \<and> getegid setuid_env = 0 \<and>
   virGetUserName setuid_env (geteuid setuid_env) = Some ''root'' \<and>
   virGetGroupName setuid_env (getegid setuid_env) = Some ''wheel'' \<and>
   map_option virIdentityGetUserName (virIdentityGetSystem setuid_env) = Some (1, Some ''root'') \<and>
   map_option virIdentityGetUNIXUserID (virIdentityGetSystem setuid_env) = Some (1, 1000) \<and>
   map_option virIdentityGetGroupName (virIdentityGetSystem setuid_env) = Some (1, Some ''wheel'') \<and>
   map_option virIdentityGetUNIXGroupID (virIdentityGetSystem setuid_env) = Some (1, 1000)"
  by (simp add: setuid_env_def system_eval getter_defs)

text \<open>
  Claim C6, as the code has it. Once the identity object exists, a user name or a group
  name that does not resolve, a start time reported as 0 and a failing lookup of the
  SELinux context all leave \<^verbatim>\<open>virIdentityGetSystem\<close> returning an identity: whenever the
  start time lookup succeeds the result is not NULL. A failing start time lookup is
  fatal: the result is NULL.
\<close>

theorem system_identity_lookup_failures:
  "(virIdentityInitialize env \<and> virObjectNew env \<and>
    virProcessGetStartTime env (getpid env) \<noteq> None \<longrightarrow> virIdentityGetSystem env \<noteq> None) \<and>
   (virProcessGetStartTime env (getpid env) = None \<longrightarrow> virIdentityGetSystem env = None)"
  by (auto simp: system_eval split: option.splits)

theorem system_identity_lookup_failures_witness:
  "virIdentityInitialize nameless_env \<and> virObjectNew nameless_env \<and>
   virProcessGetStartTime nameless_env (getpid nameless_env) = Some 987654 \<and>
   virGetUserName nameless_env (geteuid nameless_env) = None \<and>
   virIdentityGetSystem nameless_env \<noteq> None \<and>
   virProcessGetStartTime no_start_time_env (getpid no_start_time_env) = None \<and>
   virIdentityGetSystem no_start_time_env = None"
proof -
  have h: "virIdentityInitialize nameless_env" "virObjectNew nameless_env"
    "virProcessGetStartTime nameless_env (getpid nameless_env) = Some 987654"
    "virGetUserName nameless_env (geteuid nameless_env) = None"
    by (simp_all add: nameless_env_def setuid_env_def)
  have g: "virProcessGetStartTime no_start_time_env (getpid no_start_time_env) = None"
    by (simp add: no_start_time_env_def setuid_env_def)
  from h have "virProcessGetStartTime nameless_env (getpid nameless_env) \<noteq> None"
    by simp
  with h g system_identity_lookup_failures [of nameless_env]
    system_identity_lookup_failures [of no_start_time_env]
  show ?thesis by blast
qed

text \<open>
  Claim C6 as stated fails where the start time lookup fails: with the object created
  and every name resolving, the result is NULL.
\<close>

theorem system_identity_start_time_failure_fatal:
  "virIdentityInitialize no_start_time_env \<and> virObjectNew no_start_time_env \<and>
   virProcessGetStartTime no_start_time_env (getpid no_start_time_env) = None \<and>
   virIdentityGetSystem no_start_time_env = None"
  by (simp add: no_start_time_env_def setuid_env_def virIdentityGetSystem_def virIdentityNew_def
      virIdentitySetProcessID_def add_to_def virTypedParamsAddLLong_def virTypedParamsGet_def
      empty_identity_def)

text \<open>
  Claim C10. When the start time of the process is reported as 0 (and the identity
  object can be created), \<^verbatim>\<open>virIdentityGetSystem\<close> returns an identity that has the
  process id and no process start time: \<^verbatim>\<open>virIdentityGetProcessTime\<close> returns 0 (absent),
  and no parameter has that key.
\<close>

theorem system_identity_omits_zero_start_time:
  assumes "virIdentityInitialize env" and "virObjectNew env"
    and "virProcessGetStartTime env (getpid env) = Some 0"
  shows "\<exists>ident. virIdentityGetSystem env = Some ident \<and>
           virIdentityGetProcessID ident = (1, getpid env) \<and>
           virIdentityGetProcessTime ident = (0, 0) \<and>
           virTypedParamsGet (params ident) VIR_CONNECT_IDENTITY_PROCESS_TIME = None"
  using assms
  by (auto simp: system_eval getter_defs ucast_scast_32_64 split: option.splits)

theorem system_identity_omits_zero_start_time_witness:
  "virIdentityInitialize zero_start_time_env \<and> virObjectNew zero_start_time_env \<and>
   virProcessGetStartTime zero_start_time_env (getpid zero_start_time_env) = Some 0 \<and>
   (\<exists>ident. virIdentityGetSystem zero_start_time_env = Some ident \<and>
      virIdentityGetProcessID ident = (1, 4242) \<and>
      virIdentityGetProcessTime ident = (0, 0) \<and>
      virTypedParamsGet (params ident) VIR_CONNECT_IDENTITY_PROCESS_TIME = None)"
proof -
  have h: "virIdentityInitialize zero_start_time_env" "virObjectNew zero_start_time_env"
    "virProcessGetStartTime zero_start_time_env (getpid zero_start_time_env) = Some 0"
    by (simp_all add: zero_start_time_env_def setuid_env_def)
  have pid: "getpid zero_start_time_env = 4242"
    by (simp add: zero_start_time_env_def setuid_env_def)
  from system_identity_omits_zero_start_time [OF h] h show ?thesis
    unfolding pid by blast
qed

section \<open>The identity of the thread\<close>

lemmas current_defs =
  virIdentitySetCurrent_def virIdentityGetCurrent_def virThreadLocalGet_def
  virThreadLocalSet_def virObjectRef_def virObjectUnref_def

text \<open>
  Claim C7. Let \<^verbatim>\<open>virIdentitySetCurrent\<close> succeed for thread \<open>t\<close> on a live identity at
  \<open>a\<close>, and let \<^verbatim>\<open>virIdentityGetCurrent\<close> follow on the same thread. It returns \<open>a\<close>, which
  the slot of the thread now holds, and takes one more reference on it. The attributes
  of the object are those it had before both calls. The reference the slot held on the
  object bound before is dropped: that object loses one reference, and leaves the store
  with its last one; when it is the new identity itself, the count is as before. On a
  thread with nothing bound, \<^verbatim>\<open>virIdentityGetCurrent\<close> returns NULL and changes nothing.
\<close>

theorem setCurrent_then_getCurrent:
  "(virIdentitySetCurrent init set_ok t (Some a) s = (Inr (), after_set) \<and>
    heap s a = Some ob \<and> 0 < refs ob \<and>
    virIdentityGetCurrent init t after_set = (got, after_get) \<longrightarrow>
      got = Some a \<and>
      virIdentityCurrent after_set t = Some a \<and>
      heap after_get a = map_option (\<lambda>o1. o1\<lparr>refs := refs o1 + 1\<rparr>) (heap after_set a) \<and>
      map_option identity (heap after_set a) = Some (identity ob) \<and>
      map_option identity (heap after_get a) = Some (identity ob) \<and>
      (case virIdentityCurrent s t of
         None \<Rightarrow> heap after_set a = Some (ob\<lparr>refs := refs ob + 1\<rparr>)
       | Some b \<Rightarrow>
           if b = a then heap after_set a = Some ob
           else heap after_set a = Some (ob\<lparr>refs := refs ob + 1\<rparr>) \<and>
                heap after_set b =
                  (case heap s b of
                     None \<Rightarrow> None
                   | Some old \<Rightarrow>
                       if refs old \<le> 1 then None
                       else Some (old\<lparr>refs := refs old - 1\<rparr>)))) \<and>
   (virIdentityCurrent s t = None \<longrightarrow> virIdentityGetCurrent init t s = (None, s))"
proof (rule conjI; rule impI)
  assume "virIdentityCurrent s t = None"
  then show "virIdentityGetCurrent init t s = (None, s)"
    by (simp add: current_defs)
next
  assume h: "virIdentitySetCurrent init set_ok t (Some a) s = (Inr (), after_set) \<and>
    heap s a = Some ob \<and> 0 < refs ob \<and> virIdentityGetCurrent init t after_set = (got, after_get)"
  then have live: "heap s a = Some ob" and pos: "0 < refs ob"
    by simp_all
  from h have init: "init" and set_ok: "set_ok"
    by (auto simp: current_defs live split: if_splits)
  from h have after_set: "after_set = virObjectUnref
      (s\<lparr>heap := (heap s)(a \<mapsto> ob\<lparr>refs := refs ob + 1\<rparr>),
         virIdentityCurrent := (virIdentityCurrent s)(t := Some a)\<rparr>) (virIdentityCurrent s t)"
    by (simp add: virIdentitySetCurrent_def virThreadLocalGet_def virThreadLocalSet_def
        virObjectRef_def init set_ok live)
  from h have after_get: "(got, after_get) = virObjectRef after_set (virIdentityCurrent after_set t)"
    by (simp add: virIdentityGetCurrent_def virThreadLocalGet_def init)
  have slot: "virIdentityCurrent after_set t = Some a"
    by (simp add: after_set virObjectUnref_def split: option.splits)
  have heap1: "case virIdentityCurrent s t of
         None \<Rightarrow> heap after_set a = Some (ob\<lparr>refs := refs ob + 1\<rparr>)
       | Some b \<Rightarrow>
           if b = a then heap after_set a = Some ob
           else heap after_set a = Some (ob\<lparr>refs := refs ob + 1\<rparr>) \<and>
                heap after_set b =
                  (case heap s b of
                     None \<Rightarrow> None
                   | Some old \<Rightarrow>
                       if refs old \<le> 1 then None
                       else Some (old\<lparr>refs := refs old - 1\<rparr>))"
    using pos by (simp add: after_set virObjectUnref_def live split: option.splits)
  then obtain o1 where o1: "heap after_set a = Some o1" "identity o1 = identity ob"
    by (auto split: option.splits if_splits)
  from after_get have got: "got = Some a" and heap2: "heap after_get a = Some (o1\<lparr>refs := refs o1 + 1\<rparr>)"
    by (simp_all add: virObjectRef_def slot o1)
  show "got = Some a \<and>
      virIdentityCurrent after_set t = Some a \<and>
      heap after_get a = map_option (\<lambda>o1. o1\<lparr>refs := refs o1 + 1\<rparr>) (heap after_set a) \<and>
      map_option identity (heap after_set a) = Some (identity ob) \<and>
      map_option identity (heap after_get a) = Some (identity ob) \<and>
      (case virIdentityCurrent s t of
         None \<Rightarrow> heap after_set a = Some (ob\<lparr>refs := refs ob + 1\<rparr>)
       | Some b \<Rightarrow>
           if b = a then heap after_set a = Some ob
           else heap after_set a = Some (ob\<lparr>refs := refs ob + 1\<rparr>) \<and>
                heap after_set b =
                  (case heap s b of
                     None \<Rightarrow> None
                   | Some old \<Rightarrow>
                       if refs old \<le> 1 then None
                       else Some (old\<lparr>refs := refs old - 1\<rparr>)))"
    using got slot heap2 o1 heap1 by simp
qed

theorem setCurrent_then_getCurrent_witness:
  "fst (virIdentitySetCurrent True True 7 (Some 32) two_objects) = Inr () \<and>
   fst (virIdentityGetCurrent True 7
          (snd (virIdentitySetCurrent True True 7 (Some 32) two_objects))) = Some 32 \<and>
   heap (snd (virIdentitySetCurrent True True 7 (Some 32) two_objects)) 16 = None \<and>
   heap (snd (virIdentitySetCurrent True True 7 (Some 32) two_objects)) 32 =
     Some \<lparr>refs = 2, identity = stamped_identity\<rparr> \<and>
   heap (snd (virIdentityGetCurrent True 7
                (snd (virIdentitySetCurrent True True 7 (Some 32) two_objects)))) 32 =
     Some \<lparr>refs = 3, identity = stamped_identity\<rparr> \<and>
   virIdentityCurrent two_objects 8 = None \<and>
   virIdentityGetCurrent True 8 two_objects = (None, two_objects)"
proof -
  let ?after = "snd (virIdentitySetCurrent True True 7 (Some 32) two_objects)"
  let ?ob = "\<lparr>refs = 1, identity = stamped_identity\<rparr>"
  have ok: "fst (virIdentitySetCurrent True True 7 (Some 32) two_objects) = Inr ()"
    by (simp add: current_defs two_objects_def)
  then have set: "virIdentitySetCurrent True True 7 (Some 32) two_objects = (Inr (), ?after)"
    by (metis prod.collapse)
  have get: "virIdentityGetCurrent True 7 ?after =
      (fst (virIdentityGetCurrent True 7 ?after), snd (virIdentityGetCurrent True 7 ?after))"
    by simp
  have live: "heap two_objects 32 = Some ?ob" and pos: "0 < refs ?ob"
    and bound: "virIdentityCurrent two_objects 7 = Some 16"
    and old: "heap two_objects 16 = Some \<lparr>refs = 1, identity = empty_identity\<rparr>"
    and unbound: "virIdentityCurrent two_objects 8 = None"
    by (simp_all add: two_objects_def)
  from setCurrent_then_getCurrent [where init = True and set_ok = True and t = 7 and a = 32
      and s = two_objects and after_set = ?after and ob = ?ob] set live pos get
  have facts: "fst (virIdentityGetCurrent True 7 ?after) = Some 32"
    "heap (snd (virIdentityGetCurrent True 7 ?after)) 32 =
       map_option (\<lambda>o1. o1\<lparr>refs := refs o1 + 1\<rparr>) (heap ?after 32)"
    "case virIdentityCurrent two_objects 7 of
         None \<Rightarrow> heap ?after 32 = Some (?ob\<lparr>refs := refs ?ob + 1\<rparr>)
       | Some b \<Rightarrow>
           if b = 32 then heap ?after 32 = Some ?ob
           else heap ?after 32 = Some (?ob\<lparr>refs := refs ?ob + 1\<rparr>) \<and>
                heap ?after b =
                  (case heap two_objects b of
                     None \<Rightarrow> None
                   | Some old \<Rightarrow>
                       if refs old \<le> 1 then None
                       else Some (old\<lparr>refs := refs old - 1\<rparr>))"
    by blast+
  from facts(3) have heap1: "heap ?after 32 = Some \<lparr>refs = 2, identity = stamped_identity\<rparr>"
    "heap ?after 16 = None"
    by (simp_all add: bound old)
  from facts(2) have heap2: "heap (snd (virIdentityGetCurrent True 7 ?after)) 32 =
      Some \<lparr>refs = 3, identity = stamped_identity\<rparr>"
    by (simp add: heap1)
  from setCurrent_then_getCurrent [where s = two_objects and t = 8 and init = True] unbound
  have none: "virIdentityGetCurrent True 8 two_objects = (None, two_objects)"
    by blast
  from ok facts(1) heap1 heap2 unbound none show ?thesis
    by blast
qed

text \<open>
  Claim C9. When the initialisation has succeeded and the store into the thread-local
  fails, \<^verbatim>\<open>virIdentitySetCurrent\<close> on a live identity returns -1 with
  \<^verbatim>\<open>VIR_ERR_INTERNAL_ERROR\<close> and the whole store is as before the call: the reference
  taken on the new identity is given back, the slot of the thread holds what it held,
  and the identity bound before keeps its reference.
\<close>

theorem setCurrent_failure_keeps_binding:
  assumes "heap s a = Some ob" and "0 < refs ob"
  shows "virIdentitySetCurrent True False t (Some a) s = (Inl VIR_ERR_INTERNAL_ERROR, s)"
  using assms
  by (simp add: current_defs store_heap_same)

theorem setCurrent_failure_keeps_binding_witness:
  "heap two_objects 32 = Some \<lparr>refs = 1, identity = stamped_identity\<rparr> \<and>
   virIdentityCurrent two_objects 7 = Some 16 \<and>
   virIdentitySetCurrent True False 7 (Some 32) two_objects =
     (Inl VIR_ERR_INTERNAL_ERROR, two_objects)"
proof -
  have live: "heap two_objects 32 = Some \<lparr>refs = 1, identity = stamped_identity\<rparr>"
    by (simp add: two_objects_def)
  have pos: "0 < refs \<lparr>refs = 1, identity = stamped_identity\<rparr>"
    by simp
  have bound: "virIdentityCurrent two_objects 7 = Some 16"
    by (simp add: two_objects_def)
  from setCurrent_failure_keeps_binding [OF live pos, of 7] live bound
  show ?thesis by blast
qed

end
